theory Spec2Isabelle
  imports Main
begin

section \<open>Python values that reach the program\<close>

text \<open>
  The program of \<^verbatim>\<open>main.py\<close> handles three kinds of data: the city name typed by the
  user (a \<^verbatim>\<open>str\<close>), the objects that \<^verbatim>\<open>response.json()\<close> builds from a response
  body (\<^verbatim>\<open>None\<close>, \<^verbatim>\<open>bool\<close>, \<^verbatim>\<open>int\<close>, \<^verbatim>\<open>float\<close>, \<^verbatim>\<open>str\<close>, \<^verbatim>\<open>list\<close>, \<^verbatim>\<open>dict\<close> with
  \<^verbatim>\<open>str\<close> keys) and the exceptions raised on the way.

  Strings are \<^typ>\<open>string\<close>: a Python \<^verbatim>\<open>str\<close> is the list of the bytes of its UTF-8
  form, so that an ASCII text is itself and concatenation is concatenation. \<^verbatim>\<open>repr\<close> of a
  string follows CPython on ASCII text and copies the bytes of a character beyond ASCII.
  \<^verbatim>\<open>str.title\<close> is written out on ASCII text and is a parameter beyond that.

  A \<^verbatim>\<open>float\<close> is carried by the two observations the program makes of it: the text
  that \<^verbatim>\<open>str\<close> gives for it (an f-string prints a float through \<^verbatim>\<open>repr\<close>), and the
  integer it compares equal to, when there is one (a \<^verbatim>\<open>dict\<close> lookup hashes and
  compares numbers by value, so \<^verbatim>\<open>2.0\<close> finds the key \<^verbatim>\<open>2\<close>; a float is falsy when
  it equals \<^verbatim>\<open>0\<close>).
\<close>

datatype pyfloat = PyFloat (float_repr: string) (float_int: "int option")

datatype json =
    JNull
  | JBool bool
  | JInt int
  | JFloat pyfloat
  | JStr string
  | JArr "json list"
  | JObj "(string \<times> json) list"

datatype pyerror = JSONDecodeError | KeyError | TypeError | IndexError

subsection \<open>Truth value\<close>

text \<open>\<^verbatim>\<open>not location_data\<close>: the truth value of a Python object.\<close>

fun truthy :: "json \<Rightarrow> bool" where
  "truthy JNull = False"
| "truthy (JBool b) = b"
| "truthy (JInt i) = (i \<noteq> 0)"
| "truthy (JFloat f) = (float_int f \<noteq> Some 0)"
| "truthy (JStr s) = (s \<noteq> [])"
| "truthy (JArr xs) = (xs \<noteq> [])"
| "truthy (JObj kvs) = (kvs \<noteq> [])"

subsection \<open>Subscription and membership\<close>

text \<open>
  \<^verbatim>\<open>v[i]\<close> with an integer \<^verbatim>\<open>i\<close>. A sequence counts a negative index from its end and
  raises \<^verbatim>\<open>IndexError\<close> out of range; a \<^verbatim>\<open>dict\<close> built from JSON has only string keys,
  so an integer key is a \<^verbatim>\<open>KeyError\<close>; the other objects are not subscriptable.
\<close>

definition seq_index :: "'a list \<Rightarrow> int \<Rightarrow> pyerror + 'a" where
  "seq_index xs i =
     (if 0 \<le> i \<and> i < int (length xs) then Inr (xs ! nat i)
      else if i < 0 \<and> - i \<le> int (length xs) then Inr (xs ! nat (int (length xs) + i))
      else Inl IndexError)"

fun getitem_int :: "json \<Rightarrow> int \<Rightarrow> pyerror + json" where
  "getitem_int (JArr xs) i = seq_index xs i"
| "getitem_int (JStr s) i =
     (case seq_index s i of Inl e \<Rightarrow> Inl e | Inr c \<Rightarrow> Inr (JStr [c]))"
| "getitem_int (JObj kvs) i = Inl KeyError"
| "getitem_int v i = Inl TypeError"

text \<open>
  \<^verbatim>\<open>v[k]\<close> with a string \<^verbatim>\<open>k\<close>: a \<^verbatim>\<open>dict\<close> looks the key up and raises
  \<^verbatim>\<open>KeyError\<close> when it is absent; lists and strings take integer indices only.
\<close>

fun getitem_str :: "json \<Rightarrow> string \<Rightarrow> pyerror + json" where
  "getitem_str (JObj kvs) k =
     (case map_of kvs k of None \<Rightarrow> Inl KeyError | Some v \<Rightarrow> Inr v)"
| "getitem_str v k = Inl TypeError"

fun starts_with :: "string \<Rightarrow> string \<Rightarrow> bool" where
  "starts_with [] s = True"
| "starts_with (p # ps) [] = False"
| "starts_with (p # ps) (c # cs) = (p = c \<and> starts_with ps cs)"

fun substring_of :: "string \<Rightarrow> string \<Rightarrow> bool" where
  "substring_of sub [] = (sub = [])"
| "substring_of sub (c # cs) = (starts_with sub (c # cs) \<or> substring_of sub cs)"

text \<open>
  \<^verbatim>\<open>k in v\<close> with a string \<^verbatim>\<open>k\<close>: key membership for a \<^verbatim>\<open>dict\<close>, element membership
  for a \<^verbatim>\<open>list\<close>, substring test for a \<^verbatim>\<open>str\<close>, \<^verbatim>\<open>TypeError\<close> for the rest.
\<close>

fun contains :: "json \<Rightarrow> string \<Rightarrow> pyerror + bool" where
  "contains (JObj kvs) k = Inr (map_of kvs k \<noteq> None)"
| "contains (JArr xs) k = Inr (JStr k \<in> set xs)"
| "contains (JStr s) k = Inr (substring_of k s)"
| "contains v k = Inl TypeError"

subsection \<open>Text of a value\<close>

definition digit_char :: "nat \<Rightarrow> char" where
  "digit_char d = char_of (48 + d)"

fun str_nat :: "nat \<Rightarrow> string" where
  "str_nat n =
     (if n < 10 then [digit_char n] else str_nat (n div 10) @ [digit_char (n mod 10)])"

declare str_nat.simps [simp del]

definition str_int :: "int \<Rightarrow> string" where
  "str_int i = (if i < 0 then CHR ''-'' # str_nat (nat (- i)) else str_nat (nat i))"

definition hex_char :: "nat \<Rightarrow> char" where
  "hex_char d = (if d < 10 then char_of (48 + d) else char_of (87 + d))"

text \<open>
  \<^verbatim>\<open>repr\<close> of a string: single quotes, unless the text has a single quote and no double
  quote; the quote in use and the backslash are escaped, as are the control characters.
\<close>

definition backslash :: char where
  "backslash = CHR 0x5C"

definition repr_char :: "char \<Rightarrow> char \<Rightarrow> string" where
  "repr_char q c =
     (if c = q \<or> c = backslash then [backslash, c]
      else if c = CHR 0x09 then [backslash, CHR ''t'']
      else if c = CHR 0x0A then [backslash, CHR ''n'']
      else if c = CHR 0x0D then [backslash, CHR ''r'']
      else if of_char c < (32::nat) \<or> c = CHR 0x7F
        then [backslash, CHR ''x'', hex_char (of_char c div 16), hex_char (of_char c mod 16)]
      else [c])"

definition repr_str :: "string \<Rightarrow> string" where
  "repr_str s =
     (let q = (if CHR 0x27 \<in> set s \<and> CHR 0x22 \<notin> set s then CHR 0x22 else CHR 0x27)
      in [q] @ concat (map (repr_char q) s) @ [q])"

fun join :: "string \<Rightarrow> string list \<Rightarrow> string" where
  "join sep [] = []"
| "join sep [x] = x"
| "join sep (x # y # ys) = x @ sep @ join sep (y # ys)"

text \<open>
  \<^verbatim>\<open>repr(v)\<close>, and \<^verbatim>\<open>str(v)\<close>, which is what an f-string field \<^verbatim>\<open>{v}\<close> inserts: they
  differ on a string only, which \<^verbatim>\<open>str\<close> leaves as it is.
\<close>

fun py_repr :: "json \<Rightarrow> string"
  and repr_elems :: "json list \<Rightarrow> string list"
  and repr_items :: "(string \<times> json) list \<Rightarrow> string list" where
  "py_repr JNull = ''None''"
| "py_repr (JBool b) = (if b then ''True'' else ''False'')"
| "py_repr (JInt i) = str_int i"
| "py_repr (JFloat f) = float_repr f"
| "py_repr (JStr s) = repr_str s"
| "py_repr (JArr xs) = ''['' @ join '', '' (repr_elems xs) @ '']''"
| "py_repr (JObj kvs) = ''{'' @ join '', '' (repr_items kvs) @ ''}''"
| "repr_elems [] = []"
| "repr_elems (x # xs) = py_repr x # repr_elems xs"
| "repr_items [] = []"
| "repr_items ((k, v) # kvs) = (repr_str k @ '': '' @ py_repr v) # repr_items kvs"

definition py_str :: "json \<Rightarrow> string" where
  "py_str v = (case v of JStr s \<Rightarrow> s | _ \<Rightarrow> py_repr v)"

subsection \<open>Title case\<close>

text \<open>
  \<^verbatim>\<open>str.title\<close> goes through the string with the flag \<^verbatim>\<open>previous_is_cased\<close>: a cased
  character that follows a cased character is mapped to lower case, any other one to title
  case. Which characters are cased, and what their lower-case and title-case forms are,
  is read from the Unicode character database of the interpreter, which is not part of
  the repository.

  On ASCII text the database is fixed and small: the cased characters are the 52 letters,
  the title-case form of a letter is its capital, and nothing else changes. This part is
  written out below (\<open>ascii_title\<close>). For a string with a character beyond ASCII the
  result is taken from a parameter \<open>ut\<close> of the model, the function that
  \<^verbatim>\<open>str.title\<close> is on such strings; nothing is assumed about it.
\<close>

definition ascii_text :: "string \<Rightarrow> bool" where
  "ascii_text s = list_all (\<lambda>c. (of_char c :: nat) < 128) s"

definition ascii_is_upper :: "char \<Rightarrow> bool" where
  "ascii_is_upper c = (65 \<le> (of_char c :: nat) \<and> (of_char c :: nat) \<le> 90)"

definition ascii_is_lower :: "char \<Rightarrow> bool" where
  "ascii_is_lower c = (97 \<le> (of_char c :: nat) \<and> (of_char c :: nat) \<le> 122)"

definition ascii_is_cased :: "char \<Rightarrow> bool" where
  "ascii_is_cased c = (ascii_is_upper c \<or> ascii_is_lower c)"

definition ascii_to_upper :: "char \<Rightarrow> char" where
  "ascii_to_upper c = (if ascii_is_lower c then char_of (of_char c - (32::nat)) else c)"

definition ascii_to_lower :: "char \<Rightarrow> char" where
  "ascii_to_lower c = (if ascii_is_upper c then char_of (of_char c + (32::nat)) else c)"

fun ascii_title_from :: "bool \<Rightarrow> string \<Rightarrow> string" where
  "ascii_title_from previous_is_cased [] = []"
| "ascii_title_from previous_is_cased (c # cs) =
     (if previous_is_cased then ascii_to_lower c else ascii_to_upper c) #
     ascii_title_from (ascii_is_cased c) cs"

definition ascii_title :: "string \<Rightarrow> string" where
  "ascii_title s = ascii_title_from False s"

definition str_title :: "(string \<Rightarrow> string) \<Rightarrow> string \<Rightarrow> string" where
  "str_title ut s = (if ascii_text s then ascii_title s else ut s)"

section \<open>The condition table\<close>

text \<open>The dictionary \<^verbatim>\<open>weather_descriptions\<close> of \<^verbatim>\<open>get_weather_description\<close>.\<close>

definition weather_descriptions :: "(int \<times> string) list" where
  "weather_descriptions =
    [(0, ''Clear sky''),
     (1, ''Mainly clear''),
     (2, ''Partly cloudy''),
     (3, ''Overcast''),
     (45, ''Fog''),
     (48, ''Depositing rime fog''),
     (51, ''Drizzle: Light''),
     (53, ''Drizzle: Moderate''),
     (55, ''Drizzle: Dense intensity''),
     (56, ''Freezing Drizzle: Light''),
     (57, ''Freezing Drizzle: Dense intensity''),
     (61, ''Rain: Slight''),
     (63, ''Rain: Moderate''),
     (65, ''Rain: Heavy intensity''),
     (66, ''Freezing Rain: Light''),
     (67, ''Freezing Rain: Heavy intensity''),
     (71, ''Snow fall: Slight''),
     (73, ''Snow fall: Moderate''),
     (75, ''Snow fall: Heavy intensity''),
     (77, ''Snow grains''),
     (80, ''Rain showers: Slight''),
     (81, ''Rain showers: Moderate''),
     (82, ''Rain showers: Violent''),
     (85, ''Snow showers: Slight''),
     (86, ''Snow showers: Heavy''),
     (95, ''Thunderstorm: Slight or moderate''),
     (96, ''Thunderstorm with slight hail''),
     (99, ''Thunderstorm with heavy hail'')]"

text \<open>
  A key is looked up by hash and equality. Lists and dicts are unhashable
  (\<^verbatim>\<open>TypeError\<close>); a number finds the integer key it equals, so \<^verbatim>\<open>True\<close> finds \<^verbatim>\<open>1\<close>
  and \<^verbatim>\<open>2.0\<close> finds \<^verbatim>\<open>2\<close>; \<^verbatim>\<open>None\<close> and strings equal no integer.
\<close>

fun int_key :: "json \<Rightarrow> pyerror + int option" where
  "int_key (JArr xs) = Inl TypeError"
| "int_key (JObj kvs) = Inl TypeError"
| "int_key (JInt i) = Inr (Some i)"
| "int_key (JBool b) = Inr (Some (if b then 1 else 0))"
| "int_key (JFloat f) = Inr (float_int f)"
| "int_key JNull = Inr None"
| "int_key (JStr s) = Inr None"

definition dict_get :: "(int \<times> string) list \<Rightarrow> json \<Rightarrow> string \<Rightarrow> pyerror + string" where
  "dict_get d key fallback =
     (case int_key key of
        Inl e \<Rightarrow> Inl e
      | Inr None \<Rightarrow> Inr fallback
      | Inr (Some i) \<Rightarrow> (case map_of d i of None \<Rightarrow> Inr fallback | Some v \<Rightarrow> Inr v))"

definition get_weather_description :: "json \<Rightarrow> pyerror + string" where
  "get_weather_description code = dict_get weather_descriptions code ''Unknown weather condition''"

section \<open>The lookup\<close>

text \<open>
  The world the lookup acts on: the lines printed so far, and the requests sent so far
  (URL and explicit headers). The network is a parameter: what \<^verbatim>\<open>requests.get\<close> answers
  to a URL and headers. Every request is answered: a transport failure, where
  \<^verbatim>\<open>requests.get\<close> itself raises, is not part of the model. Of a response the program
  reads \<^verbatim>\<open>.json()\<close> only, which either raises \<^verbatim>\<open>JSONDecodeError\<close> or returns the parsed
  object.
\<close>

datatype response = Not_Json | Json json

type_synonym headers = "(string \<times> string) list"

type_synonym network = "string \<Rightarrow> headers \<Rightarrow> response"

record world =
  stdout :: "string list"
  sent :: "(string \<times> headers) list"

definition print :: "string \<Rightarrow> world \<Rightarrow> world" where
  "print line w = w\<lparr>stdout := stdout w @ [line]\<rparr>"

definition requests_get :: "network \<Rightarrow> string \<Rightarrow> headers \<Rightarrow> world \<Rightarrow> response \<times> world" where
  "requests_get net url hs w = (net url hs, w\<lparr>sent := sent w @ [(url, hs)]\<rparr>)"

definition response_json :: "response \<Rightarrow> pyerror + json" where
  "response_json r = (case r of Not_Json \<Rightarrow> Inl JSONDecodeError | Json v \<Rightarrow> Inr v)"

text \<open>The degree sign of the temperature line, as the two bytes UTF-8 writes for it.\<close>

definition degree_sign :: string where
  "degree_sign = [CHR 0xC2, CHR 0xB0]"

definition geocode_url :: "string \<Rightarrow> string" where
  "geocode_url city = ''https://nominatim.openstreetmap.org/search?city='' @ city @ ''&format=json''"

definition geocode_headers :: headers where
  "geocode_headers = [(''User-Agent'', ''WeatherApp (contact@example.com)'')]"

definition weather_url :: "json \<Rightarrow> json \<Rightarrow> string" where
  "weather_url latitude longitude =
     ''https://api.open-meteo.com/v1/forecast?'' @
     ''latitude='' @ py_str latitude @ ''&longitude='' @ py_str longitude @
     ''&current=temperature_2m,weathercode''"

text \<open>
  \<^verbatim>\<open>get_weather(city)\<close>, with the two things of its environment as parameters: \<open>ut\<close>,
  what \<^verbatim>\<open>str.title\<close> gives beyond ASCII, and the network. The result is \<open>Inr ()\<close> when the function returns and \<open>Inl e\<close>
  when the exception \<open>e\<close> leaves it. Lines 35 to 45 of the source, the part after the
  weather response is parsed, are \<open>report\<close>.
\<close>

definition report :: "(string \<Rightarrow> string) \<Rightarrow> string \<Rightarrow> json \<Rightarrow> world \<Rightarrow> (pyerror + unit) \<times> world" where
  "report ut city weather_data w =
     (case contains weather_data ''current'' of
        Inl e \<Rightarrow> (Inl e, w)
      | Inr False \<Rightarrow> (Inr (), print (''Error: Unable to retrieve weather data for '' @ [CHR 0x27] @ city @ [CHR 0x27] @ ''.'') w)
      | Inr True \<Rightarrow>
          (case getitem_str weather_data ''current'' of
             Inl e \<Rightarrow> (Inl e, w)
           | Inr current_weather \<Rightarrow>
               (case getitem_str current_weather ''temperature_2m'' of
                  Inl e \<Rightarrow> (Inl e, w)
                | Inr temperature \<Rightarrow>
                    (case getitem_str current_weather ''weathercode'' of
                       Inl e \<Rightarrow> (Inl e, w)
                     | Inr weather_code \<Rightarrow>
                         (case get_weather_description weather_code of
                            Inl e \<Rightarrow> (Inl e, w)
                          | Inr weather_description \<Rightarrow>
                              (Inr (),
                               print (''Condition: '' @ weather_description)
                                 (print (''Temperature: '' @ py_str temperature @ degree_sign @ ''C'')
                                    (print (''Weather in '' @ str_title ut city @ '':'') w))))))))"

definition get_weather :: "(string \<Rightarrow> string) \<Rightarrow> network \<Rightarrow> string \<Rightarrow> world \<Rightarrow> (pyerror + unit) \<times> world" where
  "get_weather ut net city w0 =
     (case requests_get net (geocode_url city) geocode_headers w0 of
        (response, w1) \<Rightarrow>
          (case response_json response of
             Inl e \<Rightarrow>
               (if e = JSONDecodeError
                then (Inr (), print ''Error: Unable to fetch location data. Try again later.'' w1)
                else (Inl e, w1))
           | Inr location_data \<Rightarrow>
               if \<not> truthy location_data
               then (Inr (),
                     print (''Error: Unable to find location data for '' @ [CHR 0x27] @ city @ [CHR 0x27] @
                            ''. Please check the city name.'') w1)
               else
                 (case getitem_int location_data 0 of
                    Inl e \<Rightarrow> (Inl e, w1)
                  | Inr first \<Rightarrow>
                      (case getitem_str first ''lat'' of
                         Inl e \<Rightarrow> (Inl e, w1)
                       | Inr latitude \<Rightarrow>
                           (case getitem_int location_data 0 of
                              Inl e \<Rightarrow> (Inl e, w1)
                            | Inr first' \<Rightarrow>
                                (case getitem_str first' ''lon'' of
                                   Inl e \<Rightarrow> (Inl e, w1)
                                 | Inr longitude \<Rightarrow>
                                     (case requests_get net (weather_url latitude longitude) [] w1 of
                                        (weather_response, w2) \<Rightarrow>
                                          (case response_json weather_response of
                                             Inl e \<Rightarrow> (Inl e, w2)
                                           | Inr weather_data \<Rightarrow> report ut city weather_data w2))))))))"

definition world0 :: world where
  "world0 = \<lparr>stdout = [], sent = []\<rparr>"

text \<open>
  A network for concrete runs: it answers the geocoding request for \<open>city\<close> with
  \<open>geo\<close> and every other request with \<open>wx\<close>. The concrete runs on ASCII city names
  pass the identity for \<open>ut\<close>, which \<open>str_title\<close> does not consult on them.
\<close>

definition serve :: "string \<Rightarrow> response \<Rightarrow> response \<Rightarrow> network" where
  "serve city geo wx url hs = (if url = geocode_url city then geo else wx)"

definition berlin_geo :: response where
  "berlin_geo =
     Json (JArr [JObj [(''lat'', JFloat (PyFloat ''52.52'' None)),
                       (''lon'', JFloat (PyFloat ''13.41'' None))],
                 JObj [(''lat'', JStr ''39.78''), (''lon'', JStr ''-74.93'')]])"

definition berlin_wx :: response where
  "berlin_wx =
     Json (JObj [(''current'',
                  JObj [(''temperature_2m'', JFloat (PyFloat ''18.3'' None)),
                        (''weathercode'', JInt 2)])])"

section \<open>Properties\<close>

subsection \<open>Steps of the lookup\<close>

lemma urls_differ: "weather_url la lo \<noteq> geocode_url city"
  by (simp add: weather_url_def geocode_url_def)

lemma get_weather_not_json:
  assumes "net (geocode_url city) geocode_headers = Not_Json"
  shows "get_weather ut net city w =
     (Inr (), w\<lparr>stdout := stdout w @ [''Error: Unable to fetch location data. Try again later.''],
                 sent := sent w @ [(geocode_url city, geocode_headers)]\<rparr>)"
  using assms by (simp add: get_weather_def requests_get_def response_json_def print_def)

lemma get_weather_falsy:
  assumes "net (geocode_url city) geocode_headers = Json v" and "\<not> truthy v"
  shows "get_weather ut net city w =
     (Inr (), w\<lparr>stdout := stdout w @
                   [''Error: Unable to find location data for '' @ [CHR 0x27] @ city @ [CHR 0x27] @
                    ''. Please check the city name.''],
                 sent := sent w @ [(geocode_url city, geocode_headers)]\<rparr>)"
  using assms by (simp add: get_weather_def requests_get_def response_json_def print_def)

lemma get_weather_located:
  assumes "net (geocode_url city) geocode_headers = Json (JArr (JObj fs # rest))"
    and "map_of fs ''lat'' = Some la" and "map_of fs ''lon'' = Some lo"
  shows "get_weather ut net city w =
     (case response_json (net (weather_url la lo) []) of
        Inl e \<Rightarrow>
          (Inl e, w\<lparr>sent := sent w @ [(geocode_url city, geocode_headers), (weather_url la lo, [])]\<rparr>)
      | Inr wd \<Rightarrow>
          report ut city wd
            (w\<lparr>sent := sent w @ [(geocode_url city, geocode_headers), (weather_url la lo, [])]\<rparr>))"
  using assms
  by (simp add: get_weather_def requests_get_def response_json_def seq_index_def split: sum.splits)

lemma get_weather_truthy:
  assumes "net (geocode_url city) geocode_headers = Json v" and "truthy v"
  shows "(\<exists>e. get_weather ut net city w =
            (Inl e, w\<lparr>sent := sent w @ [(geocode_url city, geocode_headers)]\<rparr>)) \<or>
         (\<exists>e u. get_weather ut net city w =
            (Inl e, w\<lparr>sent := sent w @ [(geocode_url city, geocode_headers), (u, [])]\<rparr>)) \<or>
         (\<exists>wd u. get_weather ut net city w =
            report ut city wd (w\<lparr>sent := sent w @ [(geocode_url city, geocode_headers), (u, [])]\<rparr>))"
  using assms
  by (auto simp add: get_weather_def requests_get_def response_json_def
      split: sum.splits response.splits)

lemma report_stdout:
  "stdout (snd (report ut city wd w)) = stdout w \<or>
   stdout (snd (report ut city wd w)) =
     stdout w @ [''Error: Unable to retrieve weather data for '' @ [CHR 0x27] @ city @ [CHR 0x27] @ ''.''] \<or>
   (\<exists>t c. stdout (snd (report ut city wd w)) = stdout w @ [''Weather in '' @ str_title ut city @ '':'', t, c])"
  by (simp add: report_def print_def split: sum.splits bool.splits)


lemma report_no_current:
  assumes "contains wd ''current'' = Inr False"
  shows "report ut city wd w =
     (Inr (), w\<lparr>stdout := stdout w @
        [''Error: Unable to retrieve weather data for '' @ [CHR 0x27] @ city @ [CHR 0x27] @ ''.'']\<rparr>)"
  using assms by (simp add: report_def print_def)


lemma report_key_error:
  assumes "map_of ws ''current'' = Some (JObj cs)"
    and "map_of cs ''temperature_2m'' = None \<or> map_of cs ''weathercode'' = None"
  shows "report ut city (JObj ws) w = (Inl KeyError, w)"
  using assms by (auto simp add: report_def split: sum.splits option.splits)










lemma get_weather_first:
  assumes "net (geocode_url city) geocode_headers = Json (JArr (x # rest))"
  shows "get_weather ut net city w =
     (case getitem_str x ''lat'' of
        Inl e \<Rightarrow> (Inl e, w\<lparr>sent := sent w @ [(geocode_url city, geocode_headers)]\<rparr>)
      | Inr la \<Rightarrow>
          (case getitem_str x ''lon'' of
             Inl e \<Rightarrow> (Inl e, w\<lparr>sent := sent w @ [(geocode_url city, geocode_headers)]\<rparr>)
           | Inr lo \<Rightarrow>
               (case response_json (net (weather_url la lo) []) of
                  Inl e \<Rightarrow>
                    (Inl e, w\<lparr>sent := sent w @ [(geocode_url city, geocode_headers), (weather_url la lo, [])]\<rparr>)
                | Inr wd \<Rightarrow>
                    report ut city wd
                      (w\<lparr>sent := sent w @ [(geocode_url city, geocode_headers), (weather_url la lo, [])]\<rparr>))))"
  using assms
  by (simp add: get_weather_def requests_get_def response_json_def seq_index_def split: sum.splits)

lemma get_weather_truthy_stdout:
  assumes "net (geocode_url city) geocode_headers = Json v" and "truthy v"
  shows "stdout (snd (get_weather ut net city w)) \<noteq>
     stdout w @ [''Error: Unable to find location data for '' @ [CHR 0x27] @ city @ [CHR 0x27] @
                 ''. Please check the city name.'']"
proof -
  from get_weather_truthy [where ut = ut, of net city v w] assms
  consider e where "get_weather ut net city w =
          (Inl e, w\<lparr>sent := sent w @ [(geocode_url city, geocode_headers)]\<rparr>)"
    | e u where "get_weather ut net city w =
          (Inl e, w\<lparr>sent := sent w @ [(geocode_url city, geocode_headers), (u, [])]\<rparr>)"
    | wd u where "get_weather ut net city w =
          report ut city wd (w\<lparr>sent := sent w @ [(geocode_url city, geocode_headers), (u, [])]\<rparr>)"
    by blast
  then show ?thesis
  proof cases
    case 1
    then show ?thesis by simp
  next
    case 2
    then show ?thesis by simp
  next
    case 3
    with report_stdout [where ut = ut, of city wd "w\<lparr>sent := sent w @ [(geocode_url city, geocode_headers), (u, [])]\<rparr>"]
    show ?thesis by auto
  qed
qed

lemma get_weather_index_error:
  assumes "net (geocode_url city) geocode_headers = Json v" and "truthy v"
    and "getitem_int v 0 = Inl e"
  shows "get_weather ut net city w = (Inl e, w\<lparr>sent := sent w @ [(geocode_url city, geocode_headers)]\<rparr>)"
  using assms by (simp add: get_weather_def requests_get_def response_json_def)

lemma get_weather_index_first:
  assumes "net (geocode_url city) geocode_headers = Json v" and "truthy v"
    and "getitem_int v 0 = Inr x"
  shows "get_weather ut net city w =
     get_weather ut (\<lambda>url hs. if url = geocode_url city then Json (JArr [x]) else net url hs) city w"
proof -
  let ?net' = "\<lambda>url hs. if url = geocode_url city then Json (JArr [x]) else net url hs"
  have g: "?net' (geocode_url city) geocode_headers = Json (JArr [x])"
    by simp
  have w: "\<And>la lo. ?net' (weather_url la lo) [] = net (weather_url la lo) []"
    by (simp add: urls_differ)
  have "get_weather ut net city w =
     (case getitem_str x ''lat'' of
        Inl e \<Rightarrow> (Inl e, w\<lparr>sent := sent w @ [(geocode_url city, geocode_headers)]\<rparr>)
      | Inr la \<Rightarrow>
          (case getitem_str x ''lon'' of
             Inl e \<Rightarrow> (Inl e, w\<lparr>sent := sent w @ [(geocode_url city, geocode_headers)]\<rparr>)
           | Inr lo \<Rightarrow>
               (case response_json (net (weather_url la lo) []) of
                  Inl e \<Rightarrow>
                    (Inl e, w\<lparr>sent := sent w @ [(geocode_url city, geocode_headers), (weather_url la lo, [])]\<rparr>)
                | Inr wd \<Rightarrow>
                    report ut city wd
                      (w\<lparr>sent := sent w @ [(geocode_url city, geocode_headers), (weather_url la lo, [])]\<rparr>))))"
    using assms
    by (simp add: get_weather_def requests_get_def response_json_def split: sum.splits)
  then show ?thesis
    unfolding get_weather_first [where ut = ut, of ?net' city x "[]" w, OF g] w .
qed







subsection \<open>Title case\<close>















subsection \<open>The condition table\<close>

lemma table_miss:
  "i \<notin> set [0, 1, 2, 3, 45, 48, 51, 53, 55, 56, 57, 61, 63, 65, 66, 67, 71, 73, 75, 77,
               80, 81, 82, 85, 86, 95, 96, 99] \<Longrightarrow> map_of weather_descriptions i = None"
  by (simp add: weather_descriptions_def)

text \<open>
  Claim C1 says that \<^verbatim>\<open>get_weather_description\<close> returns the mapped description for
  each of the 28 codes of the table, and the fallback text for every other input value,
  without ever raising. As stated it fails: the code is what \<^verbatim>\<open>current['weathercode']\<close>
  holds, any JSON value, and a list is unhashable, so \<^verbatim>\<open>dict.get\<close> raises
  \<^verbatim>\<open>TypeError\<close> on it.
\<close>

theorem get_weather_description_unhashable:
  "get_weather_description (JArr []) = Inl TypeError"
  by (simp add: get_weather_description_def dict_get_def)

text \<open>
  Claim C1, amended: each of the 28 integer codes gives its description; every other
  integer, \<^verbatim>\<open>None\<close> and every string give \<^verbatim>\<open>"Unknown weather condition"\<close> without an
  error; a boolean or a float is looked up as the integer it equals (a float that equals
  no integer gives the fallback); a list or a dict raises \<^verbatim>\<open>TypeError\<close>.
\<close>

theorem get_weather_description_cases:
  "map (\<lambda>c. get_weather_description (JInt c))
       [0, 1, 2, 3, 45, 48, 51, 53, 55, 56, 57, 61, 63, 65, 66, 67, 71, 73, 75, 77,
        80, 81, 82, 85, 86, 95, 96, 99] =
     map Inr
       [''Clear sky'', ''Mainly clear'', ''Partly cloudy'', ''Overcast'', ''Fog'',
        ''Depositing rime fog'', ''Drizzle: Light'', ''Drizzle: Moderate'',
        ''Drizzle: Dense intensity'', ''Freezing Drizzle: Light'',
        ''Freezing Drizzle: Dense intensity'', ''Rain: Slight'', ''Rain: Moderate'',
        ''Rain: Heavy intensity'', ''Freezing Rain: Light'', ''Freezing Rain: Heavy intensity'',
        ''Snow fall: Slight'', ''Snow fall: Moderate'', ''Snow fall: Heavy intensity'',
        ''Snow grains'', ''Rain showers: Slight'', ''Rain showers: Moderate'',
        ''Rain showers: Violent'', ''Snow showers: Slight'', ''Snow showers: Heavy'',
        ''Thunderstorm: Slight or moderate'', ''Thunderstorm with slight hail'',
        ''Thunderstorm with heavy hail''] \<and>
   (\<forall>i. i \<notin> set [0, 1, 2, 3, 45, 48, 51, 53, 55, 56, 57, 61, 63, 65, 66, 67, 71, 73, 75, 77,
                    80, 81, 82, 85, 86, 95, 96, 99] \<longrightarrow>
        get_weather_description (JInt i) = Inr ''Unknown weather condition'') \<and>
   get_weather_description JNull = Inr ''Unknown weather condition'' \<and>
   (\<forall>s. get_weather_description (JStr s) = Inr ''Unknown weather condition'') \<and>
   (\<forall>b. get_weather_description (JBool b) = get_weather_description (JInt (if b then 1 else 0))) \<and>
   (\<forall>f. get_weather_description (JFloat f) =
        (case float_int f of
           None \<Rightarrow> Inr ''Unknown weather condition''
         | Some i \<Rightarrow> get_weather_description (JInt i))) \<and>
   (\<forall>xs. get_weather_description (JArr xs) = Inl TypeError) \<and>
   (\<forall>kvs. get_weather_description (JObj kvs) = Inl TypeError)"
proof (intro conjI allI impI)
  show "map (\<lambda>c. get_weather_description (JInt c))
       [0, 1, 2, 3, 45, 48, 51, 53, 55, 56, 57, 61, 63, 65, 66, 67, 71, 73, 75, 77,
        80, 81, 82, 85, 86, 95, 96, 99] =
     map Inr
       [''Clear sky'', ''Mainly clear'', ''Partly cloudy'', ''Overcast'', ''Fog'',
        ''Depositing rime fog'', ''Drizzle: Light'', ''Drizzle: Moderate'',
        ''Drizzle: Dense intensity'', ''Freezing Drizzle: Light'',
        ''Freezing Drizzle: Dense intensity'', ''Rain: Slight'', ''Rain: Moderate'',
        ''Rain: Heavy intensity'', ''Freezing Rain: Light'', ''Freezing Rain: Heavy intensity'',
        ''Snow fall: Slight'', ''Snow fall: Moderate'', ''Snow fall: Heavy intensity'',
        ''Snow grains'', ''Rain showers: Slight'', ''Rain showers: Moderate'',
        ''Rain showers: Violent'', ''Snow showers: Slight'', ''Snow showers: Heavy'',
        ''Thunderstorm: Slight or moderate'', ''Thunderstorm with slight hail'',
        ''Thunderstorm with heavy hail'']"
    by (simp add: get_weather_description_def dict_get_def weather_descriptions_def)
next
  fix i :: int
  assume "i \<notin> set [0, 1, 2, 3, 45, 48, 51, 53, 55, 56, 57, 61, 63, 65, 66, 67, 71, 73, 75, 77,
                    80, 81, 82, 85, 86, 95, 96, 99]"
  then have "map_of weather_descriptions i = None" by (rule table_miss)
  then show "get_weather_description (JInt i) = Inr ''Unknown weather condition''"
    by (simp add: get_weather_description_def dict_get_def)
next
  fix f
  show "get_weather_description (JFloat f) =
        (case float_int f of
           None \<Rightarrow> Inr ''Unknown weather condition''
         | Some i \<Rightarrow> get_weather_description (JInt i))"
    by (simp add: get_weather_description_def dict_get_def split: option.splits)
qed (simp_all add: get_weather_description_def dict_get_def)

text \<open>The amended claim at 9999, at -1, at the float 2.0 and at \<^verbatim>\<open>True\<close>.\<close>

theorem get_weather_description_cases_witness:
  "get_weather_description (JInt 9999) = Inr ''Unknown weather condition'' \<and>
   get_weather_description (JInt (- 1)) = Inr ''Unknown weather condition'' \<and>
   get_weather_description (JFloat (PyFloat ''2.0'' (Some 2))) = Inr ''Partly cloudy'' \<and>
   get_weather_description (JBool True) = Inr ''Mainly clear''"
proof -
  note c = get_weather_description_cases
  have m: "get_weather_description (JInt 2) = Inr ''Partly cloudy''"
      "get_weather_description (JInt 1) = Inr ''Mainly clear''"
    using c [THEN conjunct1] by simp_all
  have u: "\<And>i. i \<notin> set [0, 1, 2, 3, 45, 48, 51, 53, 55, 56, 57, 61, 63, 65, 66, 67, 71, 73, 75, 77,
                    80, 81, 82, 85, 86, 95, 96, 99] \<Longrightarrow>
        get_weather_description (JInt i) = Inr ''Unknown weather condition''"
    using c by blast
  have "get_weather_description (JInt 9999) = Inr ''Unknown weather condition''"
    by (rule u) simp
  moreover have "get_weather_description (JInt (- 1)) = Inr ''Unknown weather condition''"
    by (rule u) simp
  moreover have "get_weather_description (JFloat (PyFloat ''2.0'' (Some 2))) = Inr ''Partly cloudy''"
    using c m by simp
  moreover have "get_weather_description (JBool True) = Inr ''Mainly clear''"
    using c m by simp
  ultimately show ?thesis by simp
qed

subsection \<open>The report\<close>



subsection \<open>The guarded exits\<close>

text \<open>
  Claim C4: for every city, when the geocoding response parses to an empty array, the
  lookup returns after printing one line, the "not found" message with the city name
  between quotes; the geocoding request is the only request sent, so no weather request
  is made, and no temperature or condition line is printed.
\<close>

theorem empty_geocoding_not_found:
  assumes "net (geocode_url city) geocode_headers = Json (JArr [])"
  shows "fst (get_weather ut net city w) = Inr () \<and>
         stdout (snd (get_weather ut net city w)) =
           stdout w @ [''Error: Unable to find location data for '' @ [CHR 0x27] @ city @ [CHR 0x27] @
                       ''. Please check the city name.''] \<and>
         sent (snd (get_weather ut net city w)) = sent w @ [(geocode_url city, geocode_headers)]"
  using assms by (simp add: get_weather_falsy [where ut = ut, of net city "JArr []"])

text \<open>Claim C4 for the city \<^verbatim>\<open>Atlantis\<close>.\<close>

theorem empty_geocoding_not_found_witness:
  "fst (get_weather id (serve ''Atlantis'' (Json (JArr [])) berlin_wx) ''Atlantis'' world0) = Inr () \<and>
   stdout (snd (get_weather id (serve ''Atlantis'' (Json (JArr [])) berlin_wx) ''Atlantis'' world0)) =
     [''Error: Unable to find location data for '' @ [CHR 0x27] @ ''Atlantis'' @ [CHR 0x27] @
      ''. Please check the city name.''] \<and>
   sent (snd (get_weather id (serve ''Atlantis'' (Json (JArr [])) berlin_wx) ''Atlantis'' world0)) =
     [(''https://nominatim.openstreetmap.org/search?city=Atlantis&format=json'',
       [(''User-Agent'', ''WeatherApp (contact@example.com)'')])]"
  using empty_geocoding_not_found [where ut = id, of "serve ''Atlantis'' (Json (JArr [])) berlin_wx" "''Atlantis''" world0]
  by (simp add: serve_def world0_def geocode_url_def geocode_headers_def)

text \<open>
  Claim C5: for every city, when the body of the geocoding response is not valid JSON,
  the lookup prints the fetch-error message and returns: the \<^verbatim>\<open>JSONDecodeError\<close> does not
  leave the function, and the geocoding request is the only request sent.
\<close>

theorem invalid_geocoding_fetch_error:
  assumes "net (geocode_url city) geocode_headers = Not_Json"
  shows "fst (get_weather ut net city w) = Inr () \<and>
         stdout (snd (get_weather ut net city w)) =
           stdout w @ [''Error: Unable to fetch location data. Try again later.''] \<and>
         sent (snd (get_weather ut net city w)) = sent w @ [(geocode_url city, geocode_headers)]"
  using assms by (simp add: get_weather_not_json)

text \<open>Claim C5 for the city \<^verbatim>\<open>Berlin\<close>.\<close>

theorem invalid_geocoding_fetch_error_witness:
  "fst (get_weather id (serve ''Berlin'' Not_Json berlin_wx) ''Berlin'' world0) = Inr () \<and>
   stdout (snd (get_weather id (serve ''Berlin'' Not_Json berlin_wx) ''Berlin'' world0)) =
     [''Error: Unable to fetch location data. Try again later.''] \<and>
   sent (snd (get_weather id (serve ''Berlin'' Not_Json berlin_wx) ''Berlin'' world0)) =
     [(''https://nominatim.openstreetmap.org/search?city=Berlin&format=json'',
       [(''User-Agent'', ''WeatherApp (contact@example.com)'')])]"
  using invalid_geocoding_fetch_error [where ut = id, of "serve ''Berlin'' Not_Json berlin_wx" "''Berlin''" world0]
  by (simp add: serve_def world0_def geocode_url_def geocode_headers_def)

text \<open>
  Claim C6: for every city, once the geocoding stage has given coordinates, a weather
  response that parses to an object without a \<^verbatim>\<open>current\<close> key makes the lookup print one
  line, the "unable to retrieve" message with the city name between quotes, and return:
  no temperature line, no condition line, and no \<^verbatim>\<open>KeyError\<close>.
\<close>

theorem missing_current_unavailable:
  assumes "net (geocode_url city) geocode_headers = Json (JArr (JObj fs # rest))"
    and "map_of fs ''lat'' = Some la" and "map_of fs ''lon'' = Some lo"
    and "net (weather_url la lo) [] = Json (JObj ws)"
    and "map_of ws ''current'' = None"
  shows "fst (get_weather ut net city w) = Inr () \<and>
         stdout (snd (get_weather ut net city w)) =
           stdout w @ [''Error: Unable to retrieve weather data for '' @ [CHR 0x27] @ city @ [CHR 0x27] @ ''.'']"
  using assms
  by (simp add: get_weather_located [where ut = ut, of net city fs rest la lo] response_json_def report_no_current)

text \<open>Claim C6 for the city \<^verbatim>\<open>Oslo\<close> and the weather response \<^verbatim>\<open>{"error": true}\<close>.\<close>

theorem missing_current_unavailable_witness:
  "fst (get_weather id (serve ''Oslo'' berlin_geo (Json (JObj [(''error'', JBool True)]))) ''Oslo'' world0) = Inr () \<and>
   stdout (snd (get_weather id (serve ''Oslo'' berlin_geo (Json (JObj [(''error'', JBool True)]))) ''Oslo'' world0)) =
     [''Error: Unable to retrieve weather data for '' @ [CHR 0x27] @ ''Oslo'' @ [CHR 0x27] @ ''.'']"
  using missing_current_unavailable [where ut = id, of "serve ''Oslo'' berlin_geo (Json (JObj [(''error'', JBool True)]))" "''Oslo''"
      "[(''lat'', JFloat (PyFloat ''52.52'' None)), (''lon'', JFloat (PyFloat ''13.41'' None))]"
      "[JObj [(''lat'', JStr ''39.78''), (''lon'', JStr ''-74.93'')]]"
      "JFloat (PyFloat ''52.52'' None)" "JFloat (PyFloat ''13.41'' None)"
      "[(''error'', JBool True)]" world0]
  by (simp add: serve_def berlin_geo_def urls_differ world0_def)

subsection \<open>The unguarded fields\<close>

text \<open>
  Claim C7: when the weather response parses to an object whose \<^verbatim>\<open>current\<close> is an object
  that lacks \<^verbatim>\<open>temperature_2m\<close> or \<^verbatim>\<open>weathercode\<close>, a \<^verbatim>\<open>KeyError\<close> leaves the lookup and
  nothing is printed.
\<close>

theorem incomplete_current_key_error:
  assumes "net (geocode_url city) geocode_headers = Json (JArr (JObj fs # rest))"
    and "map_of fs ''lat'' = Some la" and "map_of fs ''lon'' = Some lo"
    and "net (weather_url la lo) [] = Json (JObj ws)"
    and "map_of ws ''current'' = Some (JObj cs)"
    and "map_of cs ''temperature_2m'' = None \<or> map_of cs ''weathercode'' = None"
  shows "fst (get_weather ut net city w) = Inl KeyError \<and>
         stdout (snd (get_weather ut net city w)) = stdout w"
  using assms
  by (simp add: get_weather_located [where ut = ut, of net city fs rest la lo] response_json_def
      report_key_error [where ut = ut, of ws cs])

text \<open>Claim C7 for a \<^verbatim>\<open>current\<close> object with a temperature and no weather code.\<close>

theorem incomplete_current_key_error_witness:
  "fst (get_weather id (serve ''Oslo'' berlin_geo
          (Json (JObj [(''current'', JObj [(''temperature_2m'', JInt 7)])]))) ''Oslo'' world0) = Inl KeyError \<and>
   stdout (snd (get_weather id (serve ''Oslo'' berlin_geo
          (Json (JObj [(''current'', JObj [(''temperature_2m'', JInt 7)])]))) ''Oslo'' world0)) = []"
  using incomplete_current_key_error [where ut = id, of
      "serve ''Oslo'' berlin_geo (Json (JObj [(''current'', JObj [(''temperature_2m'', JInt 7)])]))" "''Oslo''"
      "[(''lat'', JFloat (PyFloat ''52.52'' None)), (''lon'', JFloat (PyFloat ''13.41'' None))]"
      "[JObj [(''lat'', JStr ''39.78''), (''lon'', JStr ''-74.93'')]]"
      "JFloat (PyFloat ''52.52'' None)" "JFloat (PyFloat ''13.41'' None)"
      "[(''current'', JObj [(''temperature_2m'', JInt 7)])]" "[(''temperature_2m'', JInt 7)]" world0]
  by (simp add: serve_def berlin_geo_def urls_differ world0_def)

subsection \<open>Which failures are handled\<close>




subsection \<open>The header\<close>



subsection \<open>The geocoding result\<close>




text \<open>
  Claim C10: the "not found" line is printed exactly when the parsed geocoding value is
  falsy; then the lookup returns and sends nothing more. The empty array, \<^verbatim>\<open>null\<close>,
  \<^verbatim>\<open>false\<close>, \<^verbatim>\<open>0\<close>, the empty object and the empty string are all falsy. A truthy value
  of any shape goes on to \<^verbatim>\<open>location_data[0]\<close>: when that subscription raises, the
  exception leaves the lookup; when it gives an element, the lookup continues as it would
  on the one-element array of that element.
\<close>

theorem not_found_iff_falsy:
  assumes "net (geocode_url city) geocode_headers = Json v"
  shows "((stdout (snd (get_weather ut net city w)) =
            stdout w @ [''Error: Unable to find location data for '' @ [CHR 0x27] @ city @ [CHR 0x27] @
                        ''. Please check the city name.'']) = (\<not> truthy v)) \<and>
         (\<not> truthy v \<longrightarrow>
            fst (get_weather ut net city w) = Inr () \<and>
            sent (snd (get_weather ut net city w)) = sent w @ [(geocode_url city, geocode_headers)]) \<and>
         (\<forall>e. truthy v \<and> getitem_int v 0 = Inl e \<longrightarrow>
            get_weather ut net city w =
              (Inl e, w\<lparr>sent := sent w @ [(geocode_url city, geocode_headers)]\<rparr>)) \<and>
         (\<forall>x. truthy v \<and> getitem_int v 0 = Inr x \<longrightarrow>
            get_weather ut net city w =
              get_weather ut (\<lambda>url hs. if url = geocode_url city then Json (JArr [x]) else net url hs) city w) \<and>
         \<not> truthy (JArr []) \<and> \<not> truthy JNull \<and> \<not> truthy (JBool False) \<and> \<not> truthy (JInt 0) \<and>
         \<not> truthy (JObj []) \<and> \<not> truthy (JStr [])"
proof (intro conjI allI impI)
  show "(stdout (snd (get_weather ut net city w)) =
            stdout w @ [''Error: Unable to find location data for '' @ [CHR 0x27] @ city @ [CHR 0x27] @
                        ''. Please check the city name.'']) = (\<not> truthy v)"
  proof (cases "truthy v")
    case True
    with get_weather_truthy_stdout [where ut = ut, of net city v w] assms show ?thesis by simp
  next
    case False
    with assms show ?thesis by (simp add: get_weather_falsy [where ut = ut, of net city v])
  qed
next
  assume "\<not> truthy v"
  with assms show "fst (get_weather ut net city w) = Inr ()"
    and "sent (snd (get_weather ut net city w)) = sent w @ [(geocode_url city, geocode_headers)]"
    by (simp_all add: get_weather_falsy [where ut = ut, of net city v])
next
  fix e
  assume "truthy v \<and> getitem_int v 0 = Inl e"
  with assms show "get_weather ut net city w =
              (Inl e, w\<lparr>sent := sent w @ [(geocode_url city, geocode_headers)]\<rparr>)"
    by (simp add: get_weather_index_error [where ut = ut, of net city v e])
next
  fix x
  assume "truthy v \<and> getitem_int v 0 = Inr x"
  with assms show "get_weather ut net city w =
              get_weather ut (\<lambda>url hs. if url = geocode_url city then Json (JArr [x]) else net url hs) city w"
    using get_weather_index_first [where ut = ut, of net city v x w] by blast
qed simp_all

text \<open>
  Claim C10 on the empty object, which is falsy, and on a non-empty object, which is
  truthy and has no key \<^verbatim>\<open>0\<close>.
\<close>

theorem not_found_iff_falsy_witness:
  "stdout (snd (get_weather id (serve ''Berlin'' (Json (JObj [])) berlin_wx) ''Berlin'' world0)) =
     [''Error: Unable to find location data for '' @ [CHR 0x27] @ ''Berlin'' @ [CHR 0x27] @
      ''. Please check the city name.''] \<and>
   get_weather id (serve ''Berlin'' (Json (JObj [(''error'', JStr ''Bandwidth limit exceeded'')])) berlin_wx)
       ''Berlin'' world0 =
     (Inl KeyError,
      \<lparr>stdout = [],
       sent = [(''https://nominatim.openstreetmap.org/search?city=Berlin&format=json'',
                [(''User-Agent'', ''WeatherApp (contact@example.com)'')])]\<rparr>)"
proof -
  have "stdout (snd (get_weather id (serve ''Berlin'' (Json (JObj [])) berlin_wx) ''Berlin'' world0)) =
     [''Error: Unable to find location data for '' @ [CHR 0x27] @ ''Berlin'' @ [CHR 0x27] @
      ''. Please check the city name.'']"
    using not_found_iff_falsy [where ut = id, of "serve ''Berlin'' (Json (JObj [])) berlin_wx" "''Berlin''" "JObj []" world0]
    by (simp add: serve_def world0_def)
  moreover have "get_weather id (serve ''Berlin'' (Json (JObj [(''error'', JStr ''Bandwidth limit exceeded'')])) berlin_wx)
       ''Berlin'' world0 =
     (Inl KeyError,
      \<lparr>stdout = [],
       sent = [(''https://nominatim.openstreetmap.org/search?city=Berlin&format=json'',
                [(''User-Agent'', ''WeatherApp (contact@example.com)'')])]\<rparr>)"
    using not_found_iff_falsy [where ut = id, of "serve ''Berlin'' (Json (JObj [(''error'', JStr ''Bandwidth limit exceeded'')])) berlin_wx"
        "''Berlin''" "JObj [(''error'', JStr ''Bandwidth limit exceeded'')]" world0]
    by (simp add: serve_def world0_def geocode_url_def geocode_headers_def)
  ultimately show ?thesis by simp
qed

end
